theory Spec2Isabelle
  imports Complex_Main "HOL-Library.Multiset" "HOL-Library.Sublist" "HOL-Library.Product_Lexorder"
begin

section \<open>JavaScript values\<close>

text \<open>
  The handlers of \<^verbatim>\<open>src/index.js\<close> read \<^verbatim>\<open>req.body\<close>, the value that
  \<^verbatim>\<open>express.json()\<close> parsed, and answer with \<^verbatim>\<open>res.status(c).json(v)\<close>.
  Both are JavaScript values. A number is \<^verbatim>\<open>NaN\<close>, an infinity or a finite value
  (a rational here: the handlers never calculate with it, they only test it against zero
  and hand it on). An object is the list of its own properties with distinct keys, an
  absent property (\<^verbatim>\<open>undefined\<close>) is \<open>None\<close> at type \<open>jsval option\<close>. A
  \<^verbatim>\<open>Date\<close> holds its time value in milliseconds, \<open>None\<close> for an invalid date.
\<close>

datatype jsnum = NaN | PosInf | NegInf | Fin rat

datatype jsval =
    JNull
  | JBool bool
  | JNum jsnum
  | JStr string
  | JArr "jsval list"
  | JObj "(string \<times> jsval) list"
  | JDate "int option"

text \<open>An \<^verbatim>\<open>Error\<close> object, as far as the handlers read it.\<close>

record js_error =
  message :: string
  stack :: string

text \<open>
  What the code takes from the JavaScript engine and from its libraries, and what is
  not in the repository: the parsers behind \<^verbatim>\<open>Number(s)\<close> and
  \<^verbatim>\<open>new Date(s)\<close> on a string, the conversion of a number to a string, the
  conversion of an array or object to a primitive (which may throw), mongoose's cast of
  an array or object to a \<^verbatim>\<open>String\<close> path, in a document and in a query filter,
  the errors mongoose and the driver build, and bcryptjs and jsonwebtoken. They are
  parameters: every theorem below holds for each of their behaviours.
\<close>

record runtime =
  strToNumber :: "string \<Rightarrow> jsnum"
  dateParse :: "string \<Rightarrow> int option"
  numToString :: "jsnum \<Rightarrow> string"
  objToPrimitive :: "jsval \<Rightarrow> js_error + string"
  castObjToString :: "jsval \<Rightarrow> string option"
  castObjQuery :: "jsval \<Rightarrow> js_error + (string \<Rightarrow> bool)"
  validationError :: "string list \<Rightarrow> js_error"
  duplicateKeyError :: js_error
  bcryptHash :: "string \<Rightarrow> string \<Rightarrow> string"
  bcryptCompare :: "string \<Rightarrow> string \<Rightarrow> bool"
  bcryptIllegalArguments :: js_error
  jwtSign :: "string \<Rightarrow> string \<Rightarrow> int \<Rightarrow> string"

text \<open>
  \<^verbatim>\<open>const { k } = req.body\<close>: the property \<open>k\<close> of the body. An array body
  (which \<^verbatim>\<open>express.json()\<close> also accepts) has none of the names the handlers ask for.
\<close>

definition getProp :: "jsval \<Rightarrow> string \<Rightarrow> jsval option" where
  "getProp v k = (case v of JObj kvs \<Rightarrow> map_of kvs k | _ \<Rightarrow> None)"


text \<open>Truthiness, the test behind \<^verbatim>\<open>!x\<close> and \<^verbatim>\<open>if (x)\<close>.\<close>

fun truthyNum :: "jsnum \<Rightarrow> bool" where
  "truthyNum NaN = False"
| "truthyNum PosInf = True"
| "truthyNum NegInf = True"
| "truthyNum (Fin r) = (r \<noteq> 0)"

fun truthy :: "jsval option \<Rightarrow> bool" where
  "truthy None = False"
| "truthy (Some JNull) = False"
| "truthy (Some (JBool b)) = b"
| "truthy (Some (JNum n)) = truthyNum n"
| "truthy (Some (JStr s)) = (s \<noteq> [])"
| "truthy (Some (JArr vs)) = True"
| "truthy (Some (JObj kvs)) = True"
| "truthy (Some (JDate t)) = True"

text \<open>
  \<^verbatim>\<open>Number(v)\<close>: \<^verbatim>\<open>undefined\<close> gives \<^verbatim>\<open>NaN\<close>, \<^verbatim>\<open>null\<close> gives 0, a
  string is parsed, an array or object is first converted to a primitive, which for the
  values of a parsed JSON text is a string or a thrown \<^verbatim>\<open>TypeError\<close>.
\<close>

fun toNumber :: "runtime \<Rightarrow> jsval option \<Rightarrow> js_error + jsnum" where
  "toNumber rt None = Inr NaN"
| "toNumber rt (Some JNull) = Inr (Fin 0)"
| "toNumber rt (Some (JBool b)) = Inr (Fin (if b then 1 else 0))"
| "toNumber rt (Some (JNum n)) = Inr n"
| "toNumber rt (Some (JStr s)) = Inr (strToNumber rt s)"
| "toNumber rt (Some (JDate t)) =
     Inr (case t of None \<Rightarrow> NaN | Some ms \<Rightarrow> Fin (of_int ms))"
| "toNumber rt (Some v) =
     (case objToPrimitive rt v of Inl e \<Rightarrow> Inl e | Inr s \<Rightarrow> Inr (strToNumber rt s))"

text \<open>
  The time value of \<^verbatim>\<open>new Date(n)\<close> for a number: the number cut to an integer,
  invalid when it is not finite or beyond 8.64e15 milliseconds.
\<close>

fun timeClip :: "jsnum \<Rightarrow> int option" where
  "timeClip (Fin r) =
     (if \<bar>r\<bar> \<le> 8640000000000000 then Some (if 0 \<le> r then \<lfloor>r\<rfloor> else \<lceil>r\<rceil>) else None)"
| "timeClip n = None"

text \<open>
  \<^verbatim>\<open>new Date(v)\<close> with one argument: a string is parsed, every other primitive
  goes through its number; never an exception for a primitive.
\<close>

fun newDate :: "runtime \<Rightarrow> jsval option \<Rightarrow> js_error + int option" where
  "newDate rt None = Inr None"
| "newDate rt (Some JNull) = Inr (Some 0)"
| "newDate rt (Some (JBool b)) = Inr (Some (if b then 1 else 0))"
| "newDate rt (Some (JNum n)) = Inr (timeClip n)"
| "newDate rt (Some (JStr s)) = Inr (dateParse rt s)"
| "newDate rt (Some (JDate t)) = Inr t"
| "newDate rt (Some v) =
     (case objToPrimitive rt v of Inl e \<Rightarrow> Inl e | Inr s \<Rightarrow> Inr (dateParse rt s))"

text \<open>\<^verbatim>\<open>String.prototype.includes\<close>.\<close>

fun strIncludes :: "string \<Rightarrow> string \<Rightarrow> bool" where
  "strIncludes [] sub = (sub = [])"
| "strIncludes (c # cs) sub = (prefix sub (c # cs) \<or> strIncludes cs sub)"

text \<open>
  A \<^verbatim>\<open>try { ... } catch (error) { ... }\<close> block is a computation with result
  \<open>js_error + 'a\<close>; \<open>andThen\<close> runs the next statement unless one has thrown.
\<close>

definition andThen :: "'e + 'a \<Rightarrow> ('a \<Rightarrow> 'e + 'b) \<Rightarrow> 'e + 'b" where
  "andThen m f = (case m of Inl e \<Rightarrow> Inl e | Inr x \<Rightarrow> f x)"


section \<open>Documents and the document store\<close>

text \<open>
  The two mongoose models the handlers use. A stored document has passed the schema's
  validation, so its fields have the types of \<^verbatim>\<open>userSchema\<close> and
  \<^verbatim>\<open>collectionSchema\<close>. Neither schema switches off the version key
  \<^verbatim>\<open>__v\<close> that mongoose adds to a document it saves; no handler updates a
  document, so the key stays at 0 and is not a field of the records below.
\<close>

record user =
  user_id :: string
  name :: string
  email :: string
  password :: string
  phone :: string
  user_createdAt :: int

record collection =
  coll_id :: string
  userId :: string
  userName :: string
  wasteType :: string
  location :: string
  address :: string
  dateTime :: int
  kilograms :: jsnum
  rewardPoints :: jsnum
  status :: string
  createdAt :: int

text \<open>
  The database: each MongoDB collection in insertion order (\<^verbatim>\<open>"log"\<close> holds the
  users, \<^verbatim>\<open>"storeCollection"\<close> the collection requests).
\<close>

record store =
  users :: "user list"
  collections :: "collection list"

record response =
  http_status :: nat
  json :: jsval

definition respond :: "nat \<Rightarrow> (string \<times> jsval) list \<Rightarrow> response" where
  "respond c kvs = \<lparr>http_status = c, json = JObj kvs\<rparr>"

text \<open>
  mongoose's cast of a value to a \<^verbatim>\<open>String\<close> path: a string stays, a number or
  boolean is printed, \<^verbatim>\<open>null\<close> and \<^verbatim>\<open>undefined\<close> stay empty, the rest is the
  library's. \<^verbatim>\<open>required: true\<close> on a string path refuses the empty string too.
\<close>

fun castString :: "runtime \<Rightarrow> jsval option \<Rightarrow> string option" where
  "castString rt None = None"
| "castString rt (Some JNull) = None"
| "castString rt (Some (JStr s)) = Some s"
| "castString rt (Some (JNum n)) = Some (numToString rt n)"
| "castString rt (Some (JBool b)) = Some (if b then ''true'' else ''false'')"
| "castString rt (Some v) = castObjToString rt v"

definition requiredString :: "runtime \<Rightarrow> jsval option \<Rightarrow> string option" where
  "requiredString rt v =
     (case castString rt v of None \<Rightarrow> None | Some s \<Rightarrow> if s = [] then None else Some s)"

text \<open>
  A \<^verbatim>\<open>Number\<close> path refuses \<^verbatim>\<open>NaN\<close>, a \<^verbatim>\<open>Date\<close> path an invalid date.
\<close>

definition requiredNumber :: "jsnum \<Rightarrow> jsnum option" where
  "requiredNumber n = (if n = NaN then None else Some n)"

definition invalidPaths :: "(string \<times> bool) list \<Rightarrow> string list" where
  "invalidPaths checks = map fst (filter (\<lambda>(p, ok). \<not> ok) checks)"

text \<open>
  \<^verbatim>\<open>new Collection({...})\<close> casts each value to the type of its path; the
  document exists with these types only when every path is valid.
\<close>

definition Collection_cast ::
  "runtime \<Rightarrow> string \<Rightarrow> jsval option \<Rightarrow> jsval option \<Rightarrow> jsval option \<Rightarrow> jsval option \<Rightarrow>
   jsval option \<Rightarrow> int option \<Rightarrow> jsnum \<Rightarrow> jsnum \<Rightarrow> string \<Rightarrow> int \<Rightarrow> collection option" where
  "Collection_cast rt oid uid uname wtype loc addr dt kg pts st ca =
     Option.bind (requiredString rt uid) (\<lambda>uid'.
     Option.bind (requiredString rt uname) (\<lambda>uname'.
     Option.bind (requiredString rt wtype) (\<lambda>wtype'.
     Option.bind (requiredString rt loc) (\<lambda>loc'.
     Option.bind (requiredString rt addr) (\<lambda>addr'.
     Option.bind dt (\<lambda>dt'.
     Option.bind (requiredNumber kg) (\<lambda>kg'.
     Option.bind (requiredNumber pts) (\<lambda>pts'.
       Some \<lparr>coll_id = oid, userId = uid', userName = uname', wasteType = wtype',
             location = loc', address = addr', dateTime = dt', kilograms = kg',
             rewardPoints = pts', status = st, createdAt = ca\<rparr>))))))))"

text \<open>
  The document as \<^verbatim>\<open>save()\<close> sees it after its validation: the document, or the
  paths that failed their cast or \<^verbatim>\<open>required\<close>.
\<close>

definition Collection_new ::
  "runtime \<Rightarrow> string \<Rightarrow> jsval option \<Rightarrow> jsval option \<Rightarrow> jsval option \<Rightarrow> jsval option \<Rightarrow>
   jsval option \<Rightarrow> int option \<Rightarrow> jsnum \<Rightarrow> jsnum \<Rightarrow> string \<Rightarrow> int \<Rightarrow> string list + collection" where
  "Collection_new rt oid uid uname wtype loc addr dt kg pts st ca =
     (case Collection_cast rt oid uid uname wtype loc addr dt kg pts st ca of
        Some doc \<Rightarrow> Inr doc
      | None \<Rightarrow> Inl (invalidPaths
          [(''userId'', requiredString rt uid \<noteq> None),
           (''userName'', requiredString rt uname \<noteq> None),
           (''wasteType'', requiredString rt wtype \<noteq> None),
           (''location'', requiredString rt loc \<noteq> None),
           (''address'', requiredString rt addr \<noteq> None),
           (''dateTime'', dt \<noteq> None),
           (''kilograms'', requiredNumber kg \<noteq> None),
           (''rewardPoints'', requiredNumber pts \<noteq> None)]))"

text \<open>
  \<^verbatim>\<open>collection.save()\<close>: a validation error when a path is invalid, the store's
  own error when the store raises one (\<open>fault\<close>), else the document is appended.
\<close>

definition Collection_save ::
  "runtime \<Rightarrow> js_error option \<Rightarrow> store \<Rightarrow> string list + collection \<Rightarrow> js_error + collection \<times> store" where
  "Collection_save rt fault db doc =
     (case doc of
        Inl paths \<Rightarrow> Inl (validationError rt paths)
      | Inr d \<Rightarrow>
          (case fault of
             Some e \<Rightarrow> Inl e
           | None \<Rightarrow> Inr (d, db\<lparr>collections := collections db @ [d]\<rparr>)))"

text \<open>
  \<^verbatim>\<open>.sort({ createdAt: -1 })\<close>: newest first. The sort names no second key, and the
  database promises no order among documents with equal timestamps: it may differ from
  one query to the next. The order the store gives them in one query is the argument
  \<open>tie\<close>, a rank that decides among equal timestamps (lower first; equal ranks keep the
  order of insertion). Every newest-first arrangement of distinct documents is the
  result for some rank.
\<close>

definition sortCreatedAtDesc :: "(collection \<Rightarrow> nat) \<Rightarrow> collection list \<Rightarrow> collection list" where
  "sortCreatedAtDesc tie cs = sort_key (\<lambda>c. (- createdAt c, tie c)) cs"

text \<open>\<^verbatim>\<open>Collection.find(filter).sort({ createdAt: -1 })\<close>.\<close>

definition Collection_find_sort ::
  "(collection \<Rightarrow> nat) \<Rightarrow> js_error option \<Rightarrow> store \<Rightarrow> (collection \<Rightarrow> bool) \<Rightarrow>
   js_error + collection list" where
  "Collection_find_sort tie fault db matches =
     (case fault of
        Some e \<Rightarrow> Inl e
      | None \<Rightarrow> Inr (sortCreatedAtDesc tie (filter matches (collections db))))"

text \<open>The document as \<^verbatim>\<open>res.json\<close> receives it, with its version key.\<close>

definition collectionJson :: "collection \<Rightarrow> jsval" where
  "collectionJson c =
     JObj [(''_id'', JStr (coll_id c)), (''userId'', JStr (userId c)),
           (''userName'', JStr (userName c)), (''wasteType'', JStr (wasteType c)),
           (''location'', JStr (location c)), (''address'', JStr (address c)),
           (''dateTime'', JDate (Some (dateTime c))), (''kilograms'', JNum (kilograms c)),
           (''rewardPoints'', JNum (rewardPoints c)), (''status'', JStr (status c)),
           (''createdAt'', JDate (Some (createdAt c))), (''__v'', JNum (Fin 0))]"



text \<open>
  The filter \<^verbatim>\<open>{ email }\<close> of \<^verbatim>\<open>User.findOne\<close>, as a test on the stored email:
  equality for a string (and for a number or boolean, which mongoose prints first);
  \<^verbatim>\<open>null\<close> and \<^verbatim>\<open>undefined\<close> select documents without an email, and every
  stored user has one; an array or object is cast by the library (it may hold query
  operators, or be refused).
\<close>

fun emailFilter :: "runtime \<Rightarrow> jsval option \<Rightarrow> js_error + (string \<Rightarrow> bool)" where
  "emailFilter rt None = Inr (\<lambda>x. False)"
| "emailFilter rt (Some JNull) = Inr (\<lambda>x. False)"
| "emailFilter rt (Some (JStr s)) = Inr (\<lambda>x. x = s)"
| "emailFilter rt (Some (JNum n)) = Inr (\<lambda>x. x = numToString rt n)"
| "emailFilter rt (Some (JBool b)) = Inr (\<lambda>x. x = (if b then ''true'' else ''false''))"
| "emailFilter rt (Some v) = castObjQuery rt v"


text \<open>\<^verbatim>\<open>User.findOne({ email })\<close>: the first matching user, or \<^verbatim>\<open>null\<close>.\<close>

definition User_findOne ::
  "runtime \<Rightarrow> js_error option \<Rightarrow> store \<Rightarrow> jsval option \<Rightarrow> js_error + user option" where
  "User_findOne rt fault db em =
     andThen (emailFilter rt em) (\<lambda>matches.
       case fault of
         Some e \<Rightarrow> Inl e
       | None \<Rightarrow> Inr (find (\<lambda>u. matches (email u)) (users db)))"

text \<open>
  \<^verbatim>\<open>new User({...})\<close> with the validation of \<^verbatim>\<open>save()\<close>; the creation time is
  the schema's default \<^verbatim>\<open>Date.now\<close>.
\<close>

definition User_cast ::
  "runtime \<Rightarrow> string \<Rightarrow> jsval option \<Rightarrow> jsval option \<Rightarrow> jsval option \<Rightarrow> jsval option \<Rightarrow> int \<Rightarrow>
   user option" where
  "User_cast rt oid nm em pw ph now =
     Option.bind (requiredString rt nm) (\<lambda>nm'.
     Option.bind (requiredString rt em) (\<lambda>em'.
     Option.bind (requiredString rt pw) (\<lambda>pw'.
     Option.bind (requiredString rt ph) (\<lambda>ph'.
       Some \<lparr>user_id = oid, name = nm', email = em', password = pw', phone = ph',
             user_createdAt = now\<rparr>))))"

definition User_new ::
  "runtime \<Rightarrow> string \<Rightarrow> jsval option \<Rightarrow> jsval option \<Rightarrow> jsval option \<Rightarrow> jsval option \<Rightarrow> int \<Rightarrow>
   string list + user" where
  "User_new rt oid nm em pw ph now =
     (case User_cast rt oid nm em pw ph now of
        Some doc \<Rightarrow> Inr doc
      | None \<Rightarrow> Inl (invalidPaths
          [(''name'', requiredString rt nm \<noteq> None),
           (''email'', requiredString rt em \<noteq> None),
           (''password'', requiredString rt pw \<noteq> None),
           (''phone'', requiredString rt ph \<noteq> None)]))"

text \<open>
  \<^verbatim>\<open>user.save()\<close>: validation, then the insert, which the store refuses when it
  raises an error of its own or when the unique index on \<^verbatim>\<open>email\<close> already holds
  the value.
\<close>

definition User_save ::
  "runtime \<Rightarrow> js_error option \<Rightarrow> store \<Rightarrow> string list + user \<Rightarrow> js_error + user \<times> store" where
  "User_save rt fault db doc =
     (case doc of
        Inl paths \<Rightarrow> Inl (validationError rt paths)
      | Inr u \<Rightarrow>
          (case fault of
             Some e \<Rightarrow> Inl e
           | None \<Rightarrow>
               if email u \<in> set (map email (users db)) then Inl (duplicateKeyError rt)
               else Inr (u, db\<lparr>users := users db @ [u]\<rparr>)))"

text \<open>
  \<^verbatim>\<open>bcrypt.hash(s, salt)\<close> and \<^verbatim>\<open>bcrypt.compare(s, hash)\<close> reject an argument
  that is not a string.
\<close>

definition bcrypt_hash :: "runtime \<Rightarrow> jsval option \<Rightarrow> string \<Rightarrow> js_error + string" where
  "bcrypt_hash rt s salt =
     (case s of Some (JStr pw) \<Rightarrow> Inr (bcryptHash rt pw salt) | _ \<Rightarrow> Inl (bcryptIllegalArguments rt))"

definition bcrypt_compare :: "runtime \<Rightarrow> jsval option \<Rightarrow> string \<Rightarrow> js_error + bool" where
  "bcrypt_compare rt s hash =
     (case s of Some (JStr pw) \<Rightarrow> Inr (bcryptCompare rt pw hash) | _ \<Rightarrow> Inl (bcryptIllegalArguments rt))"


section \<open>The route handlers\<close>

text \<open>
  Each handler is its \<^verbatim>\<open>try\<close> block, a computation that may throw, and its
  \<^verbatim>\<open>catch\<close> block. The inputs a handler takes from outside are arguments: the
  clock (\<open>now\<close>), the identifier mongoose generates for a new document (\<open>oid\<close>), the
  salt of \<^verbatim>\<open>bcrypt.genSalt(10)\<close>, for each call to the store the error it
  raises there, if any, and for each sorted query the store's order among equal
  timestamps. The \<^verbatim>\<open>console\<close> output is not modelled.
\<close>

text \<open>\<^verbatim>\<open>app.post("/api/auth/register", ...)\<close>\<close>

definition post_auth_register ::
  "runtime \<Rightarrow> string \<Rightarrow> string \<Rightarrow> int \<Rightarrow> js_error option \<Rightarrow> js_error option \<Rightarrow> store \<Rightarrow> jsval \<Rightarrow>
   response \<times> store" where
  "post_auth_register rt salt oid now findFault saveFault db reqBody =
     (let nm = getProp reqBody ''name''; em = getProp reqBody ''email'';
          pw = getProp reqBody ''password''; ph = getProp reqBody ''phone''
      in case
           andThen (User_findOne rt findFault db em) (\<lambda>existingUser.
             case existingUser of
               Some u \<Rightarrow>
                 Inr (respond 400 [(''success'', JBool False),
                                   (''message'', JStr ''User already exists'')], db)
             | None \<Rightarrow>
                 andThen (bcrypt_hash rt pw salt) (\<lambda>hashedPassword.
                 andThen (User_save rt saveFault db
                            (User_new rt oid nm em (Some (JStr hashedPassword)) ph now))
                   (\<lambda>(user, db').
                     Inr (respond 201
                            [(''success'', JBool True),
                             (''message'', JStr ''User registered successfully''),
                             (''user'', JObj [(''_id'', JStr (user_id user)),
                                              (''name'', JStr (name user)),
                                              (''email'', JStr (email user)),
                                              (''phone'', JStr (phone user))])], db'))))
         of Inl error \<Rightarrow>
              (respond 500 [(''success'', JBool False), (''message'', JStr ''Server error'')], db)
          | Inr r \<Rightarrow> r)"

text \<open>\<^verbatim>\<open>app.post("/api/auth/login", ...)\<close>; it never writes to the store.\<close>

definition post_auth_login ::
  "runtime \<Rightarrow> int \<Rightarrow> js_error option \<Rightarrow> store \<Rightarrow> jsval \<Rightarrow> response" where
  "post_auth_login rt now findFault db reqBody =
     (let em = getProp reqBody ''email''; pw = getProp reqBody ''password''
      in case
           andThen (User_findOne rt findFault db em) (\<lambda>found.
             case found of
               None \<Rightarrow>
                 Inr (respond 400 [(''success'', JBool False),
                                   (''message'', JStr ''Invalid credentials'')])
             | Some user \<Rightarrow>
                 andThen (bcrypt_compare rt pw (password user)) (\<lambda>isMatch.
                   if \<not> isMatch then
                     Inr (respond 400 [(''success'', JBool False),
                                       (''message'', JStr ''Invalid credentials'')])
                   else
                     let token = jwtSign rt (user_id user) ''your_jwt_secret'' now
                     in Inr (respond 200
                               [(''success'', JBool True),
                                (''token'', JStr token),
                                (''user'', JObj [(''_id'', JStr (user_id user)),
                                                 (''name'', JStr (name user)),
                                                 (''email'', JStr (email user)),
                                                 (''phone'', JStr (phone user))])])))
         of Inl error \<Rightarrow>
              respond 500 [(''success'', JBool False), (''message'', JStr ''Server error'')]
          | Inr r \<Rightarrow> r)"

text \<open>\<^verbatim>\<open>app.post("/api/collections", ...)\<close>\<close>

definition post_collections ::
  "runtime \<Rightarrow> int \<Rightarrow> string \<Rightarrow> js_error option \<Rightarrow> store \<Rightarrow> jsval \<Rightarrow> response \<times> store" where
  "post_collections rt now oid saveFault db reqBody =
     (let uid = getProp reqBody ''userId''; uname = getProp reqBody ''userName'';
          wtype = getProp reqBody ''wasteType''; loc = getProp reqBody ''location'';
          addr = getProp reqBody ''address''; dtime = getProp reqBody ''dateTime'';
          kgs = getProp reqBody ''kilograms''; pts = getProp reqBody ''rewardPoints''
      in case
           if \<not> truthy uid \<or> \<not> truthy uname \<or> \<not> truthy wtype \<or> \<not> truthy loc \<or>
              \<not> truthy addr \<or> \<not> truthy dtime \<or> \<not> truthy kgs
           then
             Inr (respond 400 [(''success'', JBool False),
                               (''message'', JStr ''Missing required fields''),
                               (''receivedData'', reqBody)], db)
           else
             andThen (newDate rt dtime) (\<lambda>dt.
             andThen (toNumber rt kgs) (\<lambda>kg.
             andThen (toNumber rt pts) (\<lambda>rp.
             andThen (Collection_save rt saveFault db
                        (Collection_new rt oid uid uname wtype loc addr dt kg rp ''pending'' now))
               (\<lambda>(doc, db').
                 Inr (respond 201
                        [(''success'', JBool True),
                         (''message'', JStr ''Collection scheduled successfully''),
                         (''collection'', collectionJson doc)], db')))))
         of Inl error \<Rightarrow>
              (respond 500 [(''success'', JBool False),
                            (''message'', JStr (''Server error: '' @ message error)),
                            (''stack'', JStr (stack error))], db)
          | Inr r \<Rightarrow> r)"

text \<open>\<^verbatim>\<open>app.get("/api/collections", ...)\<close>\<close>

definition get_collections :: "(collection \<Rightarrow> nat) \<Rightarrow> js_error option \<Rightarrow> store \<Rightarrow> response" where
  "get_collections tie findFault db =
     (case Collection_find_sort tie findFault db (\<lambda>c. True) of
        Inr cs \<Rightarrow>
          respond 200 [(''success'', JBool True), (''collections'', JArr (map collectionJson cs))]
      | Inl error \<Rightarrow>
          respond 500 [(''success'', JBool False), (''message'', JStr ''Server error'')])"

text \<open>
  \<^verbatim>\<open>app.get("/api/collections/user/:userId", ...)\<close>; a route parameter is always a
  string.
\<close>

definition get_collections_user ::
  "(collection \<Rightarrow> nat) \<Rightarrow> js_error option \<Rightarrow> store \<Rightarrow> string \<Rightarrow> response" where
  "get_collections_user tie findFault db uid =
     (case Collection_find_sort tie findFault db (\<lambda>c. userId c = uid) of
        Inr cs \<Rightarrow>
          respond 200 [(''success'', JBool True), (''collections'', JArr (map collectionJson cs))]
      | Inl error \<Rightarrow>
          respond 500 [(''success'', JBool False), (''message'', JStr ''Server error'')])"



section \<open>The response envelopes\<close>

text \<open>
  The responses of the handlers, under the names the specification gives them. Two
  handlers' \<^verbatim>\<open>catch\<close> blocks differ: the one of \<^verbatim>\<open>POST /api/collections\<close>
  appends the error's message and sends its stack, the others send a fixed text.
\<close>

definition MissingFields :: "jsval \<Rightarrow> response" where
  "MissingFields received =
     respond 400 [(''success'', JBool False), (''message'', JStr ''Missing required fields''),
                  (''receivedData'', received)]"

definition DuplicateIdentity :: response where
  "DuplicateIdentity =
     respond 400 [(''success'', JBool False), (''message'', JStr ''User already exists'')]"

definition InvalidCredentials :: response where
  "InvalidCredentials =
     respond 400 [(''success'', JBool False), (''message'', JStr ''Invalid credentials'')]"

definition ServerError :: response where
  "ServerError = respond 500 [(''success'', JBool False), (''message'', JStr ''Server error'')]"

definition ServerErrorWith :: "js_error \<Rightarrow> response" where
  "ServerErrorWith e =
     respond 500 [(''success'', JBool False), (''message'', JStr (''Server error: '' @ message e)),
                  (''stack'', JStr (stack e))]"

text \<open>
  The public view of a user, the object both \<^verbatim>\<open>register\<close> and \<^verbatim>\<open>login\<close>
  build field by field, and their answers on success.
\<close>

definition publicView :: "user \<Rightarrow> jsval" where
  "publicView u =
     JObj [(''_id'', JStr (user_id u)), (''name'', JStr (name u)), (''email'', JStr (email u)),
           (''phone'', JStr (phone u))]"

definition Registered :: "user \<Rightarrow> response" where
  "Registered u =
     respond 201 [(''success'', JBool True), (''message'', JStr ''User registered successfully''),
                  (''user'', publicView u)]"


definition Created :: "collection \<Rightarrow> response" where
  "Created doc =
     respond 201 [(''success'', JBool True),
                  (''message'', JStr ''Collection scheduled successfully''),
                  (''collection'', collectionJson doc)]"

definition Listed :: "collection list \<Rightarrow> response" where
  "Listed cs =
     respond 200 [(''success'', JBool True), (''collections'', JArr (map collectionJson cs))]"

text \<open>
  The seven properties the guard of \<^verbatim>\<open>POST /api/collections\<close> tests, and the
  eight the handler reads from the body.
\<close>

definition requiredFields :: "string list" where
  "requiredFields = [''userId'', ''userName'', ''wasteType'', ''location'', ''address'',
                     ''dateTime'', ''kilograms'']"

definition requestFields :: "string list" where
  "requestFields = requiredFields @ [''rewardPoints'']"




text \<open>The \<^verbatim>\<open>success\<close> flag and the \<^verbatim>\<open>message\<close> of an envelope.\<close>

definition successOf :: "response \<Rightarrow> jsval option" where
  "successOf r = getProp (json r) ''success''"

definition messageOf :: "response \<Rightarrow> string" where
  "messageOf r = (case getProp (json r) ''message'' of Some (JStr m) \<Rightarrow> m | _ \<Rightarrow> [])"

section \<open>Example inputs\<close>

text \<open>
  One concrete runtime, store and request each, for evaluating the handlers. The
  runtime parses two numerals and one ISO date, refuses arrays and objects on a string
  path, and has a toy password hash that prefixes the salt.
\<close>

definition exampleRuntime :: runtime where
  "exampleRuntime =
     \<lparr>strToNumber = (\<lambda>s. if s = ''5'' then Fin 5 else if s = ''2.5'' then Fin (5 / 2) else NaN),
      dateParse = (\<lambda>s. if s = ''2024-05-01T10:00:00.000Z'' then Some 1714557600000 else None),
      numToString = (\<lambda>n. if n = Fin 5 then ''5'' else ''0''),
      objToPrimitive = (\<lambda>v. Inr ''[object Object]''),
      castObjToString = (\<lambda>v. None),
      castObjQuery = (\<lambda>v. Inl \<lparr>message = ''Cast to string failed'', stack = ''CastError''\<rparr>),
      validationError = (\<lambda>paths.
        \<lparr>message = ''Validation failed: '' @ concat paths, stack = ''ValidationError''\<rparr>),
      duplicateKeyError = \<lparr>message = ''E11000 duplicate key error'', stack = ''MongoServerError''\<rparr>,
      bcryptHash = (\<lambda>pw salt. salt @ pw),
      bcryptCompare = (\<lambda>pw hash. drop 4 hash = pw),
      bcryptIllegalArguments = \<lparr>message = ''Illegal arguments'', stack = ''Error''\<rparr>,
      jwtSign = (\<lambda>uid secret t. ''jwt:'' @ uid)\<rparr>"

definition alice :: user where
  "alice = \<lparr>user_id = ''u1'', name = ''A'', email = ''a@x.com'', password = ''saltp1'',
            phone = ''1'', user_createdAt = 1000\<rparr>"

definition pickup :: "string \<Rightarrow> string \<Rightarrow> int \<Rightarrow> collection" where
  "pickup oid uid t =
     \<lparr>coll_id = oid, userId = uid, userName = ''A'', wasteType = ''Plastic'',
      location = ''Bole'', address = ''Bole Road'', dateTime = 1714557600000,
      kilograms = Fin 5, rewardPoints = Fin 50, status = ''pending'', createdAt = t\<rparr>"

definition exampleStore :: store where
  "exampleStore =
     \<lparr>users = [alice],
      collections = [pickup ''c1'' ''u1'' 2000, pickup ''c2'' ''u2'' 3000, pickup ''c3'' ''u1'' 3000]\<rparr>"

definition collectionRequest :: "jsval \<Rightarrow> jsval \<Rightarrow> (string \<times> jsval) list \<Rightarrow> jsval" where
  "collectionRequest dtime kgs extra =
     JObj ([(''userId'', JStr ''u1''), (''userName'', JStr ''A''), (''wasteType'', JStr ''Plastic''),
            (''location'', JStr ''Bole''), (''address'', JStr ''Bole Road''),
            (''dateTime'', dtime), (''kilograms'', kgs)] @ extra)"

definition mayFirst :: jsval where
  "mayFirst = JStr ''2024-05-01T10:00:00.000Z''"

definition credentials :: "string \<Rightarrow> string \<Rightarrow> jsval" where
  "credentials em pw = JObj [(''email'', JStr em), (''password'', JStr pw)]"

definition registration :: "string \<Rightarrow> string \<Rightarrow> jsval" where
  "registration em pw =
     JObj [(''name'', JStr ''B''), (''email'', JStr em), (''password'', JStr pw),
           (''phone'', JStr ''2'')]"

text \<open>
  Two ranks among equal timestamps: the order of insertion, and the document \<open>b\<close>
  before the others. A store with two requests of one user at the same millisecond,
  and one where no two timestamps are equal.
\<close>

definition insertionOrder :: "collection \<Rightarrow> nat" where
  "insertionOrder c = 0"

definition bFirst :: "collection \<Rightarrow> nat" where
  "bFirst c = (if coll_id c = ''b'' then 0 else 1)"

definition tiedStore :: store where
  "tiedStore = \<lparr>users = [alice], collections = [pickup ''a'' ''u1'' 3000, pickup ''b'' ''u1'' 3000]\<rparr>"

definition spacedStore :: store where
  "spacedStore =
     \<lparr>users = [alice],
      collections = [pickup ''c1'' ''u1'' 2000, pickup ''c2'' ''u2'' 3000, pickup ''c3'' ''u1'' 4000]\<rparr>"

definition boom :: js_error where
  "boom = \<lparr>message = ''connection lost'', stack = ''MongoNetworkError''\<rparr>"


section \<open>Properties of the collection-request handler\<close>

lemma falsy_cases:
  "(\<not> truthy v) = (v = None \<or> v = Some JNull \<or> v = Some (JBool False) \<or> v = Some (JStr [])
      \<or> v = Some (JNum (Fin 0)) \<or> v = Some (JNum NaN))"
  by (cases v rule: truthy.cases) (auto elim: truthyNum.elims)

lemma Collection_cast_Some:
  assumes "Collection_cast rt oid uid uname wtype loc addr dt kg pts st ca = Some doc"
  shows "coll_id doc = oid \<and> requiredString rt uid = Some (userId doc) \<and>
         requiredString rt uname = Some (userName doc) \<and>
         requiredString rt wtype = Some (wasteType doc) \<and>
         requiredString rt loc = Some (location doc) \<and>
         requiredString rt addr = Some (address doc) \<and>
         dt = Some (dateTime doc) \<and> kg = kilograms doc \<and> kg \<noteq> NaN \<and>
         pts = rewardPoints doc \<and> pts \<noteq> NaN \<and> status doc = st \<and> createdAt doc = ca"
  using assms unfolding Collection_cast_def requiredNumber_def
  by (auto split: Option.bind_splits if_splits)

lemma Collection_cast_None:
  "(Collection_cast rt oid uid uname wtype loc addr dt kg pts st ca = None) =
     (requiredString rt uid = None \<or> requiredString rt uname = None \<or>
      requiredString rt wtype = None \<or> requiredString rt loc = None \<or>
      requiredString rt addr = None \<or> dt = None \<or> kg = NaN \<or> pts = NaN)"
  unfolding Collection_cast_def requiredNumber_def
  by (auto split: Option.bind_splits if_splits)

lemma Collection_new_Inr:
  assumes "Collection_new rt oid uid uname wtype loc addr dt kg pts st ca = Inr doc"
  shows "coll_id doc = oid \<and> requiredString rt uid = Some (userId doc) \<and>
         requiredString rt uname = Some (userName doc) \<and>
         requiredString rt wtype = Some (wasteType doc) \<and>
         requiredString rt loc = Some (location doc) \<and>
         requiredString rt addr = Some (address doc) \<and>
         dt = Some (dateTime doc) \<and> kg = kilograms doc \<and> kg \<noteq> NaN \<and>
         pts = rewardPoints doc \<and> pts \<noteq> NaN \<and> status doc = st \<and> createdAt doc = ca"
proof (cases "Collection_cast rt oid uid uname wtype loc addr dt kg pts st ca")
  case None
  then show ?thesis using assms by (simp add: Collection_new_def)
next
  case (Some d)
  then have "d = doc" using assms by (simp add: Collection_new_def)
  with Collection_cast_Some [OF Some] show ?thesis by blast
qed

lemma Collection_new_Inl:
  "(\<exists>paths. Collection_new rt oid uid uname wtype loc addr dt kg pts st ca = Inl paths) =
     (requiredString rt uid = None \<or> requiredString rt uname = None \<or>
      requiredString rt wtype = None \<or> requiredString rt loc = None \<or>
      requiredString rt addr = None \<or> dt = None \<or> kg = NaN \<or> pts = NaN)"
  unfolding Collection_cast_None [symmetric, of rt uid uname wtype loc addr dt kg pts oid st ca]
  by (cases "Collection_cast rt oid uid uname wtype loc addr dt kg pts st ca")
     (simp_all add: Collection_new_def)

lemma Collection_new_paths:
  assumes "Collection_new rt oid uid uname wtype loc addr dt kg pts st ca = Inl paths"
  shows "(''dateTime'' \<in> set paths) = (dt = None)"
    and "(''kilograms'' \<in> set paths) = (kg = NaN)"
    and "(''rewardPoints'' \<in> set paths) = (pts = NaN)"
proof -
  have "paths = invalidPaths
          [(''userId'', requiredString rt uid \<noteq> None),
           (''userName'', requiredString rt uname \<noteq> None),
           (''wasteType'', requiredString rt wtype \<noteq> None),
           (''location'', requiredString rt loc \<noteq> None),
           (''address'', requiredString rt addr \<noteq> None),
           (''dateTime'', dt \<noteq> None),
           (''kilograms'', requiredNumber kg \<noteq> None),
           (''rewardPoints'', requiredNumber pts \<noteq> None)]"
    using assms
    by (cases "Collection_cast rt oid uid uname wtype loc addr dt kg pts st ca")
       (simp_all add: Collection_new_def)
  then show "(''dateTime'' \<in> set paths) = (dt = None)"
    and "(''kilograms'' \<in> set paths) = (kg = NaN)"
    and "(''rewardPoints'' \<in> set paths) = (pts = NaN)"
    by (simp_all add: invalidPaths_def requiredNumber_def)
qed

lemma Collection_new_invalid:
  assumes "dt = None \<or> kg = NaN \<or> pts = NaN"
  shows "\<exists>paths. Collection_new rt oid uid uname wtype loc addr dt kg pts st ca = Inl paths"
  using assms unfolding Collection_new_Inl by blast

lemma post_collections_past_guard:
  assumes "truthy (getProp b ''userId'')" "truthy (getProp b ''userName'')"
    "truthy (getProp b ''wasteType'')" "truthy (getProp b ''location'')"
    "truthy (getProp b ''address'')" "truthy (getProp b ''dateTime'')"
    "truthy (getProp b ''kilograms'')"
  shows "post_collections rt now oid saveFault db b =
     (case 
             andThen (newDate rt (getProp b ''dateTime'')) (\<lambda>dt.
             andThen (toNumber rt (getProp b ''kilograms'')) (\<lambda>kg.
             andThen (toNumber rt (getProp b ''rewardPoints'')) (\<lambda>rp.
             andThen (Collection_save rt saveFault db
                        (Collection_new rt oid (getProp b ''userId'') (getProp b ''userName'')
                          (getProp b ''wasteType'') (getProp b ''location'')
                          (getProp b ''address'') dt kg rp ''pending'' now))
               (\<lambda>(doc, db'). Inr (Created doc, db')))))
         of Inl error \<Rightarrow> (ServerErrorWith error, db)
          | Inr r \<Rightarrow> r)"
  unfolding post_collections_def Let_def Created_def ServerErrorWith_def using assms by simp

lemma required_truthy:
  assumes "\<forall>k \<in> set requiredFields. truthy (getProp b k)"
  shows "truthy (getProp b ''userId'')" "truthy (getProp b ''userName'')"
    "truthy (getProp b ''wasteType'')" "truthy (getProp b ''location'')"
    "truthy (getProp b ''address'')" "truthy (getProp b ''dateTime'')"
    "truthy (getProp b ''kilograms'')"
  using assms by (simp_all add: requiredFields_def)

text \<open>Past the guard, an invalid document is refused before it reaches the store.\<close>

lemma post_collections_invalid:
  assumes t: "\<forall>k \<in> set requiredFields. truthy (getProp b k)"
    and d: "newDate rt (getProp b ''dateTime'') = Inr dt"
    and k: "toNumber rt (getProp b ''kilograms'') = Inr kg"
    and r: "toNumber rt (getProp b ''rewardPoints'') = Inr rp"
    and bad: "dt = None \<or> kg = NaN \<or> rp = NaN"
  shows "\<exists>paths. post_collections rt now oid saveFault db b =
            (ServerErrorWith (validationError rt paths), db) \<and>
          (''dateTime'' \<in> set paths) = (dt = None) \<and>
          (''kilograms'' \<in> set paths) = (kg = NaN) \<and>
          (''rewardPoints'' \<in> set paths) = (rp = NaN)"
proof -
  obtain paths where new: "Collection_new rt oid (getProp b ''userId'') (getProp b ''userName'')
       (getProp b ''wasteType'') (getProp b ''location'') (getProp b ''address'')
       dt kg rp ''pending'' now = Inl paths"
    using Collection_new_invalid [OF bad] by blast
  have "post_collections rt now oid saveFault db b =
            (ServerErrorWith (validationError rt paths), db)"
    unfolding post_collections_past_guard [OF required_truthy [OF t]]
    using d k r new by (simp add: andThen_def Collection_save_def)
  then show ?thesis using Collection_new_paths [OF new] by blast
qed

text \<open>Past the guard, an exception of a coercion is caught.\<close>

lemma post_collections_throws:
  assumes t: "\<forall>k \<in> set requiredFields. truthy (getProp b k)"
    and bad: "newDate rt (getProp b ''dateTime'') = Inl e \<or>
         toNumber rt (getProp b ''kilograms'') = Inl e \<or>
         toNumber rt (getProp b ''rewardPoints'') = Inl e"
  shows "\<exists>e'. post_collections rt now oid saveFault db b = (ServerErrorWith e', db)"
  unfolding post_collections_past_guard [OF required_truthy [OF t]]
  using bad by (auto simp add: andThen_def split: sum.splits)


text \<open>The properties of the example request.\<close>

lemma example_request_props:
  "getProp (collectionRequest dt kg extra) ''userId'' = Some (JStr ''u1'')"
  "getProp (collectionRequest dt kg extra) ''userName'' = Some (JStr ''A'')"
  "getProp (collectionRequest dt kg extra) ''wasteType'' = Some (JStr ''Plastic'')"
  "getProp (collectionRequest dt kg extra) ''location'' = Some (JStr ''Bole'')"
  "getProp (collectionRequest dt kg extra) ''address'' = Some (JStr ''Bole Road'')"
  "getProp (collectionRequest dt kg extra) ''dateTime'' = Some dt"
  "getProp (collectionRequest dt kg extra) ''kilograms'' = Some kg"
  "getProp (collectionRequest dt kg extra) ''rewardPoints'' = map_of extra ''rewardPoints''"
  by (simp_all add: collectionRequest_def getProp_def map_add_def split: option.splits)

lemma example_request_truthy:
  assumes "truthy (Some dt)" "truthy (Some kg)"
  shows "\<forall>k \<in> set requiredFields. truthy (getProp (collectionRequest dt kg extra) k)"
  using assms by (simp add: requiredFields_def example_request_props)

lemma ServerErrorWith_status:
  "http_status (ServerErrorWith e) = 500"
  "successOf (ServerErrorWith e) = Some (JBool False)"
  "messageOf (ServerErrorWith e) = ''Server error: '' @ message e"
  by (simp_all add: ServerErrorWith_def respond_def successOf_def messageOf_def getProp_def)

text \<open>
  Claim C1. When one of the seven required properties of the body is absent or falsy
  (by \<open>falsy_cases\<close>: absent, \<^verbatim>\<open>null\<close>, \<^verbatim>\<open>false\<close>, the empty string, the
  number zero), the handler answers 400 "Missing required fields" with the body it
  received under \<^verbatim>\<open>receivedData\<close>. The store is returned as it was, and the answer
  depends on neither the runtime, the clock, the new identifier nor the store's
  behaviour: no document is built and none is saved.
\<close>

theorem post_collections_missing_fields:
  assumes "k \<in> set requiredFields" and "\<not> truthy (getProp reqBody k)"
  shows "post_collections rt now oid saveFault db reqBody = (MissingFields reqBody, db)"
  using assms unfolding post_collections_def Let_def MissingFields_def requiredFields_def
  by auto

theorem post_collections_missing_fields_witness:
  "''kilograms'' \<in> set requiredFields \<and>
   \<not> truthy (getProp (collectionRequest mayFirst (JNum (Fin 0)) []) ''kilograms'') \<and>
   post_collections exampleRuntime 5000 ''c9'' None exampleStore
       (collectionRequest mayFirst (JNum (Fin 0)) []) =
     (MissingFields (collectionRequest mayFirst (JNum (Fin 0)) []), exampleStore)"
proof -
  have k: "''kilograms'' \<in> set requiredFields"
    by (simp add: requiredFields_def)
  have f: "\<not> truthy (getProp (collectionRequest mayFirst (JNum (Fin 0)) []) ''kilograms'')"
    by (simp add: collectionRequest_def getProp_def)
  show ?thesis using k f post_collections_missing_fields [OF k f] by blast
qed

text \<open>
  Claim C2. When the seven required properties are truthy, the date parses and the
  weight is a number, the handler has two outcomes. A document is created exactly when
  the reward points are a number too, the five texts pass the schema's cast and the
  store accepts the insert; it is appended to the store with status "pending" and the
  creation time of the server's clock, and answered with 201. Otherwise the answer is
  500 and the store is unchanged. In both cases the outcome is the same for every body
  that agrees on the eight properties the handler reads, whatever else it holds
  (a \<^verbatim>\<open>status\<close> or \<^verbatim>\<open>createdAt\<close> of the caller's included).
\<close>

theorem post_collections_created_pending:
  assumes "\<forall>k \<in> set requiredFields. truthy (getProp b k)"
    and "newDate rt (getProp b ''dateTime'') = Inr (Some d)"
    and "toNumber rt (getProp b ''kilograms'') = Inr kg" and "kg \<noteq> NaN"
  shows "(if saveFault = None \<and>
             (\<exists>rp. toNumber rt (getProp b ''rewardPoints'') = Inr rp \<and> rp \<noteq> NaN) \<and>
             (\<forall>k \<in> {''userId'', ''userName'', ''wasteType'', ''location'', ''address''}.
                 requiredString rt (getProp b k) \<noteq> None)
          then \<exists>doc. post_collections rt now oid saveFault db b =
                       (Created doc, db\<lparr>collections := collections db @ [doc]\<rparr>) \<and>
                     status doc = ''pending'' \<and> createdAt doc = now \<and>
                     dateTime doc = d \<and> kilograms doc = kg
          else \<exists>e. post_collections rt now oid saveFault db b = (ServerErrorWith e, db)) \<and>
         (\<forall>b'. (\<forall>k \<in> set requestFields. getProp b' k = getProp b k) \<longrightarrow>
               post_collections rt now oid saveFault db b' =
               post_collections rt now oid saveFault db b)"
proof -
  note t = required_truthy [OF assms(1)]
  note eq = post_collections_past_guard [OF t, of rt now oid saveFault db]
  let ?new = "\<lambda>rp. Collection_new rt oid (getProp b ''userId'') (getProp b ''userName'')
       (getProp b ''wasteType'') (getProp b ''location'') (getProp b ''address'')
       (Some d) kg rp ''pending'' now"
  have first: "if saveFault = None \<and>
             (\<exists>rp. toNumber rt (getProp b ''rewardPoints'') = Inr rp \<and> rp \<noteq> NaN) \<and>
             (\<forall>k \<in> {''userId'', ''userName'', ''wasteType'', ''location'', ''address''}.
                 requiredString rt (getProp b k) \<noteq> None)
          then \<exists>doc. post_collections rt now oid saveFault db b =
                       (Created doc, db\<lparr>collections := collections db @ [doc]\<rparr>) \<and>
                     status doc = ''pending'' \<and> createdAt doc = now \<and>
                     dateTime doc = d \<and> kilograms doc = kg
          else \<exists>e. post_collections rt now oid saveFault db b = (ServerErrorWith e, db)"
  proof (cases "toNumber rt (getProp b ''rewardPoints'')")
    case (Inl e)
    have "post_collections rt now oid saveFault db b = (ServerErrorWith e, db)"
      using eq assms(2,3) Inl by (simp add: andThen_def)
    then show ?thesis using Inl by auto
  next
    case (Inr rp)
    show ?thesis
    proof (cases "?new rp")
      case (Inl paths)
      then have "\<exists>paths. ?new rp = Inl paths" by blast
      then have bad: "requiredString rt (getProp b ''userId'') = None \<or>
          requiredString rt (getProp b ''userName'') = None \<or>
          requiredString rt (getProp b ''wasteType'') = None \<or>
          requiredString rt (getProp b ''location'') = None \<or>
          requiredString rt (getProp b ''address'') = None \<or> rp = NaN"
        using assms(4) unfolding Collection_new_Inl by simp
      have "post_collections rt now oid saveFault db b =
              (ServerErrorWith (validationError rt paths), db)"
        using eq assms(2,3) Inr Inl by (simp add: andThen_def Collection_save_def)
      then show ?thesis using bad Inr by auto
    next
      case new: (Inr doc)
      note props = Collection_new_Inr [OF new]
      show ?thesis
      proof (cases saveFault)
        case None
        have "post_collections rt now oid saveFault db b =
                (Created doc, db\<lparr>collections := collections db @ [doc]\<rparr>)"
          using eq assms(2,3) Inr new None by (simp add: andThen_def Collection_save_def)
        then show ?thesis using props Inr None by auto
      next
        case (Some e)
        have "post_collections rt now oid saveFault db b = (ServerErrorWith e, db)"
          using eq assms(2,3) Inr new Some by (simp add: andThen_def Collection_save_def)
        then show ?thesis using Some by auto
      qed
    qed
  qed
  have second: "\<forall>b'. (\<forall>k \<in> set requestFields. getProp b' k = getProp b k) \<longrightarrow>
               post_collections rt now oid saveFault db b' =
               post_collections rt now oid saveFault db b"
  proof (intro allI impI)
    fix b' assume a: "\<forall>k \<in> set requestFields. getProp b' k = getProp b k"
    then have same: "getProp b' ''userId'' = getProp b ''userId''"
      "getProp b' ''userName'' = getProp b ''userName''"
      "getProp b' ''wasteType'' = getProp b ''wasteType''"
      "getProp b' ''location'' = getProp b ''location''"
      "getProp b' ''address'' = getProp b ''address''"
      "getProp b' ''dateTime'' = getProp b ''dateTime''"
      "getProp b' ''kilograms'' = getProp b ''kilograms''"
      "getProp b' ''rewardPoints'' = getProp b ''rewardPoints''"
      by (simp_all add: requestFields_def requiredFields_def)
    have t': "truthy (getProp b' ''userId'')" "truthy (getProp b' ''userName'')"
      "truthy (getProp b' ''wasteType'')" "truthy (getProp b' ''location'')"
      "truthy (getProp b' ''address'')" "truthy (getProp b' ''dateTime'')"
      "truthy (getProp b' ''kilograms'')"
      using t same by simp_all
    show "post_collections rt now oid saveFault db b' =
               post_collections rt now oid saveFault db b"
      unfolding eq post_collections_past_guard [OF t', of rt now oid saveFault db] same ..
  qed
  from first second show ?thesis by blast
qed

theorem post_collections_created_pending_witness:
  "truthy (getProp (collectionRequest mayFirst (JNum (Fin 5)) [(''rewardPoints'', JStr ''5'')]) ''userId'') \<and>
   newDate exampleRuntime (getProp (collectionRequest mayFirst (JNum (Fin 5)) [(''rewardPoints'', JStr ''5'')]) ''dateTime'')
     = Inr (Some 1714557600000) \<and>
   toNumber exampleRuntime (getProp (collectionRequest mayFirst (JNum (Fin 5)) [(''rewardPoints'', JStr ''5'')]) ''kilograms'')
     = Inr (Fin 5) \<and>
   post_collections exampleRuntime 5000 ''c9'' None exampleStore
       (collectionRequest mayFirst (JNum (Fin 5))
          [(''rewardPoints'', JStr ''5''), (''status'', JStr ''completed''), (''createdAt'', JNum (Fin 1))]) =
     post_collections exampleRuntime 5000 ''c9'' None exampleStore
       (collectionRequest mayFirst (JNum (Fin 5)) [(''rewardPoints'', JStr ''5'')]) \<and>
   http_status (fst (post_collections exampleRuntime 5000 ''c9'' None exampleStore
       (collectionRequest mayFirst (JNum (Fin 5)) [(''rewardPoints'', JStr ''5'')]))) = 201 \<and>
   map status (collections (snd (post_collections exampleRuntime 5000 ''c9'' None exampleStore
       (collectionRequest mayFirst (JNum (Fin 5)) [(''rewardPoints'', JStr ''5'')]))))
     = [''pending'', ''pending'', ''pending'', ''pending'']"
proof -
  let ?b = "collectionRequest mayFirst (JNum (Fin 5)) [(''rewardPoints'', JStr ''5'')]"
  let ?b' = "collectionRequest mayFirst (JNum (Fin 5))
          [(''rewardPoints'', JStr ''5''), (''status'', JStr ''completed''), (''createdAt'', JNum (Fin 1))]"
  have t: "\<forall>k \<in> set requiredFields. truthy (getProp ?b k)"
    by (simp add: requiredFields_def example_request_props mayFirst_def)
  have d: "newDate exampleRuntime (getProp ?b ''dateTime'') = Inr (Some 1714557600000)"
    by (simp add: example_request_props mayFirst_def exampleRuntime_def)
  have k: "toNumber exampleRuntime (getProp ?b ''kilograms'') = Inr (Fin 5)"
    by (simp add: example_request_props)
  have n: "Fin 5 \<noteq> NaN" by simp
  have acc: "None = (None :: js_error option) \<and>
             (\<exists>rp. toNumber exampleRuntime (getProp ?b ''rewardPoints'') = Inr rp \<and> rp \<noteq> NaN) \<and>
             (\<forall>k \<in> {''userId'', ''userName'', ''wasteType'', ''location'', ''address''}.
                 requiredString exampleRuntime (getProp ?b k) \<noteq> None)"
    by (simp add: example_request_props requiredString_def exampleRuntime_def)
  have same: "\<forall>k \<in> set requestFields. getProp ?b' k = getProp ?b k"
    by (simp add: requestFields_def requiredFields_def example_request_props)
  note inst = post_collections_created_pending [OF t d k n, of None 5000 "''c9''" exampleStore]
  from inst [THEN conjunct1, unfolded if_P [OF acc]] obtain doc where doc:
    "post_collections exampleRuntime 5000 ''c9'' None exampleStore ?b =
       (Created doc, exampleStore\<lparr>collections := collections exampleStore @ [doc]\<rparr>)"
    "status doc = ''pending''"
    by blast
  note indep = inst [THEN conjunct2, THEN spec, THEN mp, OF same]
  have "truthy (getProp ?b ''userId'')" using t by (simp add: requiredFields_def)
  moreover have "http_status (fst (post_collections exampleRuntime 5000 ''c9'' None exampleStore ?b)) = 201"
    using doc by (simp add: Created_def respond_def)
  moreover have "map status (collections (snd (post_collections exampleRuntime 5000 ''c9'' None exampleStore ?b)))
     = [''pending'', ''pending'', ''pending'', ''pending'']"
    using doc by (simp add: exampleStore_def pickup_def)
  ultimately show ?thesis using d k indep by blast
qed

text \<open>
  Claim C9. The guard does not test \<^verbatim>\<open>rewardPoints\<close>: when the seven required
  properties are truthy and the reward points are absent or coerce to \<^verbatim>\<open>NaN\<close>,
  the answer is never "Missing required fields". The value only goes through
  \<^verbatim>\<open>Number(...)\<close>, and the failure appears when the document is saved: the
  handler's \<^verbatim>\<open>catch\<close> block answers 500 and the store is unchanged. Unless a coercion
  of the date or the weight threw first, the error is the validation error of the save,
  with \<^verbatim>\<open>rewardPoints\<close> among its paths.
\<close>

theorem post_collections_rewardPoints_unchecked:
  assumes "\<forall>k \<in> set requiredFields. truthy (getProp b k)"
    and "getProp b ''rewardPoints'' = None \<or> toNumber rt (getProp b ''rewardPoints'') = Inr NaN"
  shows "(\<exists>e. post_collections rt now oid saveFault db b = (ServerErrorWith e, db) \<and>
              ((\<exists>dt kg. newDate rt (getProp b ''dateTime'') = Inr dt \<and>
                        toNumber rt (getProp b ''kilograms'') = Inr kg) \<longrightarrow>
               (\<exists>paths. e = validationError rt paths \<and> ''rewardPoints'' \<in> set paths))) \<and>
         fst (post_collections rt now oid saveFault db b) \<noteq> MissingFields b"
proof -
  have nan: "toNumber rt (getProp b ''rewardPoints'') = Inr NaN"
    using assms(2) by auto
  have main: "\<exists>e. post_collections rt now oid saveFault db b = (ServerErrorWith e, db) \<and>
              ((\<exists>dt kg. newDate rt (getProp b ''dateTime'') = Inr dt \<and>
                        toNumber rt (getProp b ''kilograms'') = Inr kg) \<longrightarrow>
               (\<exists>paths. e = validationError rt paths \<and> ''rewardPoints'' \<in> set paths))"
  proof (cases "\<exists>dt kg. newDate rt (getProp b ''dateTime'') = Inr dt \<and>
                        toNumber rt (getProp b ''kilograms'') = Inr kg")
    case True
    then obtain dt kg where "newDate rt (getProp b ''dateTime'') = Inr dt"
      "toNumber rt (getProp b ''kilograms'') = Inr kg" by blast
    from post_collections_invalid [OF assms(1) this nan, of now oid saveFault db]
    show ?thesis by auto
  next
    case False
    then obtain e where "newDate rt (getProp b ''dateTime'') = Inl e \<or>
         toNumber rt (getProp b ''kilograms'') = Inl e"
      by (cases "newDate rt (getProp b ''dateTime'')"; cases "toNumber rt (getProp b ''kilograms'')") auto
    then have "newDate rt (getProp b ''dateTime'') = Inl e \<or>
         toNumber rt (getProp b ''kilograms'') = Inl e \<or>
         toNumber rt (getProp b ''rewardPoints'') = Inl e" by blast
    from post_collections_throws [OF assms(1) this, of now oid saveFault db] False
    show ?thesis by blast
  qed
  then obtain e where "post_collections rt now oid saveFault db b = (ServerErrorWith e, db)"
    by blast
  then have "fst (post_collections rt now oid saveFault db b) \<noteq> MissingFields b"
    by (simp add: ServerErrorWith_def MissingFields_def respond_def)
  with main show ?thesis by blast
qed

theorem post_collections_rewardPoints_unchecked_witness:
  "truthy (getProp (collectionRequest mayFirst (JNum (Fin 5)) []) ''kilograms'') \<and>
   getProp (collectionRequest mayFirst (JNum (Fin 5)) []) ''rewardPoints'' = None \<and>
   http_status (fst (post_collections exampleRuntime 5000 ''c9'' None exampleStore
       (collectionRequest mayFirst (JNum (Fin 5)) []))) = 500 \<and>
   snd (post_collections exampleRuntime 5000 ''c9'' None exampleStore
       (collectionRequest mayFirst (JNum (Fin 5)) [])) = exampleStore \<and>
   fst (post_collections exampleRuntime 5000 ''c9'' None exampleStore
       (collectionRequest mayFirst (JNum (Fin 5)) []))
     \<noteq> MissingFields (collectionRequest mayFirst (JNum (Fin 5)) [])"
proof -
  let ?b = "collectionRequest mayFirst (JNum (Fin 5)) []"
  have t: "\<forall>k \<in> set requiredFields. truthy (getProp ?b k)"
    by (rule example_request_truthy) (simp_all add: mayFirst_def)
  have a: "getProp ?b ''rewardPoints'' = None"
    by (simp add: example_request_props)
  then have h: "getProp ?b ''rewardPoints'' = None \<or>
      toNumber exampleRuntime (getProp ?b ''rewardPoints'') = Inr NaN" by (rule disjI1)
  note inst = post_collections_rewardPoints_unchecked [OF t h, of 5000 "''c9''" None exampleStore]
  from inst obtain e where
    "post_collections exampleRuntime 5000 ''c9'' None exampleStore ?b = (ServerErrorWith e, exampleStore)"
    by blast
  then have "http_status (fst (post_collections exampleRuntime 5000 ''c9'' None exampleStore ?b)) = 500"
    "snd (post_collections exampleRuntime 5000 ''c9'' None exampleStore ?b) = exampleStore"
    by (simp_all add: ServerErrorWith_status)
  moreover have "truthy (getProp ?b ''kilograms'')"
    by (simp add: example_request_props)
  ultimately show ?thesis using a inst [THEN conjunct2] by blast
qed



section \<open>Properties of the authentication handlers\<close>

lemma User_cast_Some:
  assumes "User_cast rt oid nm em pw ph now = Some u"
  shows "user_id u = oid \<and> requiredString rt nm = Some (name u) \<and>
         requiredString rt em = Some (email u) \<and> requiredString rt pw = Some (password u) \<and>
         requiredString rt ph = Some (phone u) \<and> user_createdAt u = now"
  using assms unfolding User_cast_def by (auto split: Option.bind_splits)

lemma User_new_Inr:
  assumes "User_new rt oid nm em pw ph now = Inr u"
  shows "user_id u = oid \<and> requiredString rt nm = Some (name u) \<and>
         requiredString rt em = Some (email u) \<and> requiredString rt pw = Some (password u) \<and>
         requiredString rt ph = Some (phone u) \<and> user_createdAt u = now"
proof (cases "User_cast rt oid nm em pw ph now")
  case None
  then show ?thesis using assms by (simp add: User_new_def)
next
  case (Some d)
  then have "d = u" using assms by (simp add: User_new_def)
  with User_cast_Some [OF Some] show ?thesis by blast
qed

text \<open>The three ways \<^verbatim>\<open>register\<close> ends.\<close>

lemma post_auth_register_cases:
  "post_auth_register rt salt oid now findFault saveFault db b = (ServerError, db) \<or>
   post_auth_register rt salt oid now findFault saveFault db b = (DuplicateIdentity, db) \<or>
   (\<exists>u. post_auth_register rt salt oid now findFault saveFault db b =
           (Registered u, db\<lparr>users := users db @ [u]\<rparr>) \<and>
        email u \<notin> set (map email (users db)) \<and>
        requiredString rt (getProp b ''email'') = Some (email u) \<and>
        (\<exists>pw. getProp b ''password'' = Some (JStr pw) \<and> password u = bcryptHash rt pw salt) \<and>
        User_findOne rt findFault db (getProp b ''email'') = Inr None \<and> saveFault = None)"
proof (cases "User_findOne rt findFault db (getProp b ''email'')")
  case (Inl e)
  then show ?thesis
    by (simp add: post_auth_register_def Let_def andThen_def ServerError_def)
next
  case found: (Inr existing)
  show ?thesis
  proof (cases existing)
    case (Some u)
    then show ?thesis using found
      by (simp add: post_auth_register_def Let_def andThen_def DuplicateIdentity_def)
  next
    case None
    show ?thesis
    proof (cases "bcrypt_hash rt (getProp b ''password'') salt")
      case (Inl e)
      then show ?thesis using found None
        by (simp add: post_auth_register_def Let_def andThen_def ServerError_def)
    next
      case hashed: (Inr h)
      let ?doc = "User_new rt oid (getProp b ''name'') (getProp b ''email'') (Some (JStr h))
                    (getProp b ''phone'') now"
      show ?thesis
      proof (cases "User_save rt saveFault db ?doc")
        case (Inl e)
        then show ?thesis using found None hashed
          by (simp add: post_auth_register_def Let_def andThen_def ServerError_def)
      next
        case (Inr saved)
        obtain u db' where s: "saved = (u, db')" by (cases saved)
        from Inr s have new: "?doc = Inr u" and f: "saveFault = None"
          and fresh: "email u \<notin> set (map email (users db))"
          and db': "db' = db\<lparr>users := users db @ [u]\<rparr>"
          by (auto simp add: User_save_def split: sum.splits option.splits if_splits)
        have "post_auth_register rt salt oid now findFault saveFault db b =
                (Registered u, db\<lparr>users := users db @ [u]\<rparr>)"
          using found None hashed Inr s db'
          by (simp add: post_auth_register_def Let_def andThen_def Registered_def publicView_def)
        moreover from hashed obtain pw where pw: "getProp b ''password'' = Some (JStr pw)"
          and h: "h = bcryptHash rt pw salt"
          by (auto simp add: bcrypt_hash_def split: option.splits jsval.splits)
        moreover have "password u = h"
          using User_new_Inr [OF new] by (simp add: requiredString_def split: if_splits)
        ultimately show ?thesis using fresh User_new_Inr [OF new] found None f by blast
      qed
    qed
  qed
qed

lemma User_findOne_present:
  assumes "e \<in> set (map email (users db))"
  shows "\<exists>u. User_findOne rt None db (Some (JStr e)) = Inr (Some u) \<and> email u = e"
proof -
  from assms obtain u where "find (\<lambda>u. email u = e) (users db) = Some u"
    by (cases "find (\<lambda>u. email u = e) (users db)") (auto simp: find_None_iff)
  moreover from this have "email u = e" by (auto simp: find_Some_iff)
  ultimately show ?thesis by (simp add: User_findOne_def andThen_def)
qed

lemma User_findOne_absent:
  assumes "e \<notin> set (map email (users db))"
  shows "User_findOne rt None db (Some (JStr e)) = Inr None"
  using assms by (auto simp add: User_findOne_def andThen_def find_None_iff)

lemma User_findOne_fault:
  "User_findOne rt (Some e) db em \<noteq> Inr found"
  by (simp add: User_findOne_def andThen_def split: sum.splits)

text \<open>The unique index holds in every store the handler leaves.\<close>

lemma register_keeps_emails_distinct:
  assumes "distinct (map email (users db))"
  shows "distinct (map email (users (snd (post_auth_register rt salt oid now findFault saveFault db b))))"
  using post_auth_register_cases [of rt salt oid now findFault saveFault db b] assms
  by auto

text \<open>
  Claim C3. When the email of the request is already the email of a stored user, the
  lookup of \<^verbatim>\<open>register\<close> finds that user and the handler answers 400 "User already
  exists" without hashing or saving: the store is returned as it was. The store is
  unchanged also when the lookup itself fails. The example registers an email and
  registers it again in the store the first call left.
\<close>

theorem register_existing_email:
  assumes "getProp b ''email'' = Some (JStr e)" and "e \<in> set (map email (users db))"
  shows "post_auth_register rt salt oid now None saveFault db b = (DuplicateIdentity, db) \<and>
         snd (post_auth_register rt salt oid now findFault saveFault db b) = db"
proof -
  from User_findOne_present [OF assms(2), of rt] obtain u where
    u: "User_findOne rt None db (getProp b ''email'') = Inr (Some u)"
    using assms(1) by auto
  then have first: "post_auth_register rt salt oid now None saveFault db b = (DuplicateIdentity, db)"
    by (simp add: post_auth_register_def Let_def andThen_def DuplicateIdentity_def)
  have "User_findOne rt findFault db (getProp b ''email'') \<noteq> Inr None"
  proof (cases findFault)
    case None
    then show ?thesis using u by simp
  next
    case (Some e)
    then show ?thesis by (simp add: User_findOne_fault)
  qed
  with post_auth_register_cases [of rt salt oid now findFault saveFault db b]
  have "snd (post_auth_register rt salt oid now findFault saveFault db b) = db"
    by auto
  with first show ?thesis by blast
qed

theorem register_existing_email_witness:
  "http_status (fst (post_auth_register exampleRuntime ''salt'' ''u2'' 5000 None None exampleStore
      (registration ''b@x.com'' ''p2''))) = 201 \<and>
   getProp (registration ''b@x.com'' ''p2'') ''email'' = Some (JStr ''b@x.com'') \<and>
   ''b@x.com'' \<in> set (map email (users (snd (post_auth_register exampleRuntime ''salt'' ''u2'' 5000
      None None exampleStore (registration ''b@x.com'' ''p2''))))) \<and>
   post_auth_register exampleRuntime ''salt'' ''u3'' 6000 None None
      (snd (post_auth_register exampleRuntime ''salt'' ''u2'' 5000 None None exampleStore
         (registration ''b@x.com'' ''p2'')))
      (registration ''b@x.com'' ''p2'') =
     (DuplicateIdentity,
      snd (post_auth_register exampleRuntime ''salt'' ''u2'' 5000 None None exampleStore
         (registration ''b@x.com'' ''p2'')))"
proof -
  let ?b = "registration ''b@x.com'' ''p2''"
  let ?first = "post_auth_register exampleRuntime ''salt'' ''u2'' 5000 None None exampleStore ?b"
  have run: "?first =
      (Registered \<lparr>user_id = ''u2'', name = ''B'', email = ''b@x.com'', password = ''saltp2'',
                   phone = ''2'', user_createdAt = 5000\<rparr>,
       exampleStore\<lparr>users := [alice, \<lparr>user_id = ''u2'', name = ''B'', email = ''b@x.com'',
                   password = ''saltp2'', phone = ''2'', user_createdAt = 5000\<rparr>]\<rparr>)"
    by (simp add: post_auth_register_def registration_def getProp_def Let_def andThen_def
        User_findOne_def exampleStore_def alice_def bcrypt_hash_def exampleRuntime_def
        User_new_def User_cast_def requiredString_def User_save_def Registered_def
        publicView_def)
  have e: "getProp ?b ''email'' = Some (JStr ''b@x.com'')"
    by (simp add: registration_def getProp_def)
  have m: "''b@x.com'' \<in> set (map email (users (snd ?first)))"
    unfolding run by simp
  have s: "http_status (fst ?first) = 201"
    unfolding run by (simp add: Registered_def respond_def)
  from register_existing_email [OF e m, of exampleRuntime "''salt''" "''u3''" 6000 None None]
  show ?thesis using s e m by blast
qed












lemma example_lookups:
  "User_findOne exampleRuntime None exampleStore (Some (JStr ''a@x.com'')) = Inr (Some alice)"
  "User_findOne exampleRuntime None exampleStore (Some (JStr ''b@x.com'')) = Inr None"
  by (simp_all add: User_findOne_def andThen_def exampleStore_def alice_def)

text \<open>
  Claim C7, as stated, fails: the two failures get the same answer only when the
  request carries a string as password. Without one, \<^verbatim>\<open>bcrypt.compare\<close> throws for
  a registered email and the \<^verbatim>\<open>catch\<close> block answers 500 "Server error", while an
  unregistered email is answered 400 "Invalid credentials" before the password is
  looked at: the status tells the caller whether the email is registered.
\<close>

theorem login_failures_identical_counterexample:
  "post_auth_login exampleRuntime 5000 None exampleStore (JObj [(''email'', JStr ''b@x.com'')]) =
     InvalidCredentials \<and>
   post_auth_login exampleRuntime 5000 None exampleStore (JObj [(''email'', JStr ''a@x.com'')]) =
     ServerError \<and>
   http_status InvalidCredentials = 400 \<and> http_status ServerError = 500"
  by (simp add: post_auth_login_def getProp_def Let_def example_lookups andThen_def
      bcrypt_compare_def InvalidCredentials_def ServerError_def respond_def)

text \<open>
  Claim C7, amended. A login whose lookup finds no user is answered 400 "Invalid
  credentials", whatever its password. A login whose lookup finds a user and whose
  password is a string that does not verify against the stored hash gets the same
  answer, equal as a value, whatever the stores, the requests and the times of the two
  calls. A login whose lookup finds a user and whose password is missing or not a
  string is answered 500 "Server error", a different answer.
\<close>

theorem login_failures_identical:
  assumes "User_findOne rt None db1 (getProp b1 ''email'') = Inr None"
    and "User_findOne rt None db2 (getProp b2 ''email'') = Inr (Some u)"
  shows "post_auth_login rt now1 None db1 b1 = InvalidCredentials \<and>
         (\<forall>p. getProp b2 ''password'' = Some (JStr p) \<and> \<not> bcryptCompare rt p (password u) \<longrightarrow>
              post_auth_login rt now2 None db2 b2 = InvalidCredentials \<and>
              post_auth_login rt now2 None db2 b2 = post_auth_login rt now1 None db1 b1) \<and>
         ((\<forall>p. getProp b2 ''password'' \<noteq> Some (JStr p)) \<longrightarrow>
              post_auth_login rt now2 None db2 b2 = ServerError) \<and>
         ServerError \<noteq> InvalidCredentials"
proof -
  have first: "post_auth_login rt now1 None db1 b1 = InvalidCredentials"
    using assms(1) by (simp add: post_auth_login_def Let_def andThen_def InvalidCredentials_def)
  have wrong: "post_auth_login rt now2 None db2 b2 = InvalidCredentials"
    if "getProp b2 ''password'' = Some (JStr p)" and "\<not> bcryptCompare rt p (password u)" for p
    using assms(2) that
    by (simp add: post_auth_login_def Let_def andThen_def bcrypt_compare_def
        InvalidCredentials_def)
  have none: "post_auth_login rt now2 None db2 b2 = ServerError"
    if "\<forall>p. getProp b2 ''password'' \<noteq> Some (JStr p)"
  proof -
    from that have "bcrypt_compare rt (getProp b2 ''password'') (password u) =
        Inl (bcryptIllegalArguments rt)"
      by (auto simp add: bcrypt_compare_def split: option.splits jsval.splits)
    then show ?thesis
      using assms(2) by (simp add: post_auth_login_def Let_def andThen_def ServerError_def)
  qed
  have "ServerError \<noteq> InvalidCredentials"
    by (simp add: ServerError_def InvalidCredentials_def respond_def)
  with first wrong none show ?thesis by simp
qed

theorem login_failures_identical_witness:
  "User_findOne exampleRuntime None exampleStore (getProp (credentials ''b@x.com'' ''p1'') ''email'')
     = Inr None \<and>
   User_findOne exampleRuntime None exampleStore (getProp (credentials ''a@x.com'' ''p2'') ''email'')
     = Inr (Some alice) \<and>
   getProp (credentials ''a@x.com'' ''p2'') ''password'' = Some (JStr ''p2'') \<and>
   \<not> bcryptCompare exampleRuntime ''p2'' (password alice) \<and>
   post_auth_login exampleRuntime 6000 None exampleStore (credentials ''a@x.com'' ''p2'') =
   post_auth_login exampleRuntime 5000 None exampleStore (credentials ''b@x.com'' ''p1'') \<and>
   post_auth_login exampleRuntime 5000 None exampleStore (credentials ''b@x.com'' ''p1'') =
     InvalidCredentials"
proof -
  have a: "User_findOne exampleRuntime None exampleStore
             (getProp (credentials ''b@x.com'' ''p1'') ''email'') = Inr None"
    by (simp add: credentials_def getProp_def example_lookups)
  have b: "User_findOne exampleRuntime None exampleStore
             (getProp (credentials ''a@x.com'' ''p2'') ''email'') = Inr (Some alice)"
    by (simp add: credentials_def getProp_def example_lookups)
  have c: "getProp (credentials ''a@x.com'' ''p2'') ''password'' = Some (JStr ''p2'')"
    by (simp add: credentials_def getProp_def)
  have d: "\<not> bcryptCompare exampleRuntime ''p2'' (password alice)"
    by (simp add: exampleRuntime_def alice_def)
  note inst = login_failures_identical [OF a b, of 5000 6000]
  from inst [THEN conjunct2, THEN conjunct1, THEN spec, THEN mp, OF conjI [OF c d]]
    inst [THEN conjunct1] a b c d
  show ?thesis by blast
qed




section \<open>Store errors\<close>

lemma strIncludes_self: "strIncludes s s"
  by (cases s) simp_all

lemma strIncludes_append: "strIncludes (p @ s) s"
  by (induction p) (simp_all add: strIncludes_self)

lemma ServerError_envelope:
  "http_status ServerError = 500" "successOf ServerError = Some (JBool False)"
  "messageOf ServerError = ''Server error''"
  by (simp_all add: ServerError_def respond_def successOf_def messageOf_def getProp_def)

lemma post_auth_register_find_fault:
  "post_auth_register rt salt oid now (Some e) saveFault db b = (ServerError, db)"
  by (simp add: post_auth_register_def Let_def andThen_def User_findOne_def ServerError_def
      split: sum.splits)

lemma post_auth_register_save_fault:
  assumes "User_findOne rt None db (getProp b ''email'') = Inr None"
  shows "post_auth_register rt salt oid now None (Some e) db b = (ServerError, db)"
  using assms
  by (simp add: post_auth_register_def Let_def andThen_def User_save_def ServerError_def
      split: sum.splits)

lemma post_auth_login_find_fault:
  "post_auth_login rt now (Some e) db b = ServerError"
  by (simp add: post_auth_login_def Let_def andThen_def User_findOne_def ServerError_def
      split: sum.splits)

lemma post_collections_save_fault:
  assumes t: "\<forall>k \<in> set requiredFields. truthy (getProp b k)"
    and d: "newDate rt (getProp b ''dateTime'') = Inr dt"
    and k: "toNumber rt (getProp b ''kilograms'') = Inr kg"
    and r: "toNumber rt (getProp b ''rewardPoints'') = Inr rp"
    and v: "Collection_new rt oid (getProp b ''userId'') (getProp b ''userName'')
              (getProp b ''wasteType'') (getProp b ''location'') (getProp b ''address'')
              dt kg rp ''pending'' now = Inr doc"
  shows "post_collections rt now oid (Some e) db b = (ServerErrorWith e, db)"
  unfolding post_collections_past_guard [OF required_truthy [OF t]]
  using d k r v by (simp add: andThen_def Collection_save_def)

text \<open>
  Claim C8, as stated, fails for four of the five operations: the \<^verbatim>\<open>catch\<close> blocks
  of \<^verbatim>\<open>register\<close>, \<^verbatim>\<open>login\<close> and the two lists send the fixed message
  "Server error", which does not include the store's message.
\<close>

theorem store_error_envelopes_counterexample:
  "post_auth_register exampleRuntime ''salt'' ''u2'' 5000 (Some boom) None exampleStore
      (registration ''b@x.com'' ''p2'') = (ServerError, exampleStore) \<and>
   messageOf ServerError = ''Server error'' \<and>
   message boom = ''connection lost'' \<and>
   \<not> strIncludes ''Server error'' ''connection lost''"
  by (simp add: post_auth_register_find_fault ServerError_envelope boom_def)

text \<open>
  Claim C8, amended. When the store raises an error \<open>e\<close>, every operation answers 500
  with \<^verbatim>\<open>success: false\<close>. Only the creation of a collection request, whose valid
  document reached the store, includes the store's message (after "Server error: ")
  and sends the stack. \<^verbatim>\<open>register\<close> (whether the lookup or the save fails),
  \<^verbatim>\<open>login\<close>, the list of all requests and the list by user answer with the fixed
  message "Server error". No store is changed.
\<close>

theorem store_error_envelopes:
  assumes "\<forall>k \<in> set requiredFields. truthy (getProp b k)"
    and "newDate rt (getProp b ''dateTime'') = Inr dt"
    and "toNumber rt (getProp b ''kilograms'') = Inr kg"
    and "toNumber rt (getProp b ''rewardPoints'') = Inr rp"
    and "Collection_new rt oid (getProp b ''userId'') (getProp b ''userName'')
           (getProp b ''wasteType'') (getProp b ''location'') (getProp b ''address'')
           dt kg rp ''pending'' now = Inr doc"
    and "User_findOne rt None db (getProp b' ''email'') = Inr None"
  shows "post_collections rt now oid (Some e) db b = (ServerErrorWith e, db) \<and>
         http_status (ServerErrorWith e) = 500 \<and>
         successOf (ServerErrorWith e) = Some (JBool False) \<and>
         strIncludes (messageOf (ServerErrorWith e)) (message e) \<and>
         post_auth_register rt salt oid' now (Some e) saveFault db b'' = (ServerError, db) \<and>
         post_auth_register rt salt oid' now None (Some e) db b' = (ServerError, db) \<and>
         post_auth_login rt now (Some e) db b'' = ServerError \<and>
         get_collections tie (Some e) db = ServerError \<and>
         get_collections_user tie (Some e) db uid = ServerError \<and>
         http_status ServerError = 500 \<and>
         successOf ServerError = Some (JBool False) \<and>
         messageOf ServerError = ''Server error''"
proof -
  have "strIncludes (messageOf (ServerErrorWith e)) (message e)"
    by (simp only: ServerErrorWith_status strIncludes_append)
  moreover have "get_collections tie (Some e) db = ServerError"
    by (simp add: get_collections_def Collection_find_sort_def ServerError_def)
  moreover have "get_collections_user tie (Some e) db uid = ServerError"
    by (simp add: get_collections_user_def Collection_find_sort_def ServerError_def)
  ultimately show ?thesis
    using post_collections_save_fault [OF assms(1-5)] post_auth_register_save_fault [OF assms(6)]
      post_auth_register_find_fault post_auth_login_find_fault ServerError_envelope
      ServerErrorWith_status(1,2)
    by simp
qed

theorem store_error_envelopes_witness:
  "truthy (getProp (collectionRequest mayFirst (JNum (Fin 5)) [(''rewardPoints'', JStr ''5'')]) ''userId'') \<and>
   User_findOne exampleRuntime None exampleStore (getProp (registration ''b@x.com'' ''p2'') ''email'')
     = Inr None \<and>
   post_collections exampleRuntime 5000 ''c9'' (Some boom) exampleStore
       (collectionRequest mayFirst (JNum (Fin 5)) [(''rewardPoints'', JStr ''5'')]) =
     (ServerErrorWith boom, exampleStore) \<and>
   messageOf (ServerErrorWith boom) = ''Server error: connection lost'' \<and>
   post_auth_register exampleRuntime ''salt'' ''u2'' 5000 None (Some boom) exampleStore
       (registration ''b@x.com'' ''p2'') = (ServerError, exampleStore) \<and>
   post_auth_login exampleRuntime 5000 (Some boom) exampleStore (credentials ''a@x.com'' ''p1'')
     = ServerError \<and>
   get_collections insertionOrder (Some boom) exampleStore = ServerError \<and>
   get_collections_user insertionOrder (Some boom) exampleStore ''u1'' = ServerError"
proof -
  let ?b = "collectionRequest mayFirst (JNum (Fin 5)) [(''rewardPoints'', JStr ''5'')]"
  let ?b' = "registration ''b@x.com'' ''p2''"
  have t: "\<forall>k \<in> set requiredFields. truthy (getProp ?b k)"
    by (rule example_request_truthy) (simp_all add: mayFirst_def)
  have d: "newDate exampleRuntime (getProp ?b ''dateTime'') = Inr (Some 1714557600000)"
    by (simp add: example_request_props mayFirst_def exampleRuntime_def)
  have k: "toNumber exampleRuntime (getProp ?b ''kilograms'') = Inr (Fin 5)"
    by (simp add: example_request_props)
  have r: "toNumber exampleRuntime (getProp ?b ''rewardPoints'') = Inr (Fin 5)"
    by (simp add: example_request_props exampleRuntime_def)
  have v: "Collection_new exampleRuntime ''c9'' (getProp ?b ''userId'') (getProp ?b ''userName'')
           (getProp ?b ''wasteType'') (getProp ?b ''location'') (getProp ?b ''address'')
           (Some 1714557600000) (Fin 5) (Fin 5) ''pending'' 5000 =
           Inr \<lparr>coll_id = ''c9'', userId = ''u1'', userName = ''A'', wasteType = ''Plastic'',
                location = ''Bole'', address = ''Bole Road'', dateTime = 1714557600000,
                kilograms = Fin 5, rewardPoints = Fin 5, status = ''pending'',
                createdAt = 5000\<rparr>"
    by (simp add: example_request_props Collection_new_def Collection_cast_def
        requiredString_def requiredNumber_def)
  have f: "User_findOne exampleRuntime None exampleStore (getProp ?b' ''email'') = Inr None"
    by (simp add: registration_def getProp_def User_findOne_def andThen_def exampleStore_def
        alice_def)
  note inst = store_error_envelopes [OF t d k r v f, of boom "''salt''" "''u2''" None
      "credentials ''a@x.com'' ''p1''" insertionOrder "''u1''"]
  have m: "messageOf (ServerErrorWith boom) = ''Server error: connection lost''"
    by (simp add: ServerErrorWith_status boom_def)
  have u: "truthy (getProp ?b ''userId'')" by (simp add: example_request_props)
  from inst m u f show ?thesis by blast
qed

section \<open>Properties of the list handlers\<close>

lemma sortCreatedAtDesc_sorted:
  "sorted_wrt (\<lambda>a b. createdAt b \<le> createdAt a) (sortCreatedAtDesc tie cs)"
proof -
  have "sorted (map (\<lambda>c. (- createdAt c, tie c)) (sortCreatedAtDesc tie cs))"
    unfolding sortCreatedAtDesc_def by (rule sorted_sort_key)
  then have "sorted_wrt (\<lambda>a b. (- createdAt a, tie a) \<le> (- createdAt b, tie b))
               (sortCreatedAtDesc tie cs)"
    by (simp add: sorted_wrt_map)
  then show ?thesis
    by (rule sorted_wrt_mono_rel [rotated]) auto
qed

lemma sortCreatedAtDesc_mset: "mset (sortCreatedAtDesc tie cs) = mset cs"
  by (simp add: sortCreatedAtDesc_def)

lemma sortCreatedAtDesc_set: "set (sortCreatedAtDesc tie cs) = set cs"
  by (simp add: sortCreatedAtDesc_def)

lemma sortCreatedAtDesc_keys_sorted:
  "sorted (map (\<lambda>c. - createdAt c) (sortCreatedAtDesc tie cs))"
  using sortCreatedAtDesc_sorted [of tie cs] by (simp add: sorted_wrt_map)

text \<open>
  Without equal timestamps the order is the same for every rank and every query: a
  filter of the sorted list is the sorted list of the filtered documents.
\<close>

lemma sortCreatedAtDesc_filter:
  assumes "distinct (map createdAt (filter P cs))"
  shows "sortCreatedAtDesc tie' (filter P cs) = filter P (sortCreatedAtDesc tie cs)"
proof (rule map_sorted_distinct_set_unique [where f = "\<lambda>c. - createdAt c"])
  let ?xs = "sortCreatedAtDesc tie' (filter P cs)"
  let ?ys = "filter P (sortCreatedAtDesc tie cs)"
  have sets: "set ?xs = set (filter P cs)" "set ?ys = set (filter P cs)"
    by (simp_all add: sortCreatedAtDesc_set)
  have msets: "mset ?xs = mset (filter P cs)" "mset ?ys = mset (filter P cs)"
    by (simp_all add: sortCreatedAtDesc_mset)
  have inj: "inj_on createdAt (set (filter P cs))"
    using assms by (simp add: distinct_map)
  then have inj': "inj_on (\<lambda>c. - createdAt c) (set (filter P cs))"
    by (auto simp add: inj_on_def)
  have dist: "distinct (filter P cs)" using assms by (simp add: distinct_map)
  show "inj_on (\<lambda>c. - createdAt c) (set ?xs \<union> set ?ys)"
    unfolding sets Un_absorb by (rule inj')
  show "sorted (map (\<lambda>c. - createdAt c) ?xs)"
    by (rule sortCreatedAtDesc_keys_sorted)
  show "sorted (map (\<lambda>c. - createdAt c) ?ys)"
    using sortCreatedAtDesc_keys_sorted [of tie cs] by (simp add: sorted_wrt_map sorted_wrt_filter)
  have dx: "distinct ?xs" and dy: "distinct ?ys"
    using dist msets by (metis mset_eq_imp_distinct_iff)+
  show "distinct (map (\<lambda>c. - createdAt c) ?xs)"
    unfolding distinct_map sets using dx inj' by blast
  show "distinct (map (\<lambda>c. - createdAt c) ?ys)"
    unfolding distinct_map sets using dy inj' by blast
  show "set ?xs = set ?ys" unfolding sets ..
qed

lemma get_collections_ok:
  "get_collections tie None db = Listed (sortCreatedAtDesc tie (collections db))"
  by (simp add: get_collections_def Collection_find_sort_def Listed_def)

lemma get_collections_user_ok:
  "get_collections_user tie None db uid =
     Listed (sortCreatedAtDesc tie (filter (\<lambda>c. userId c = uid) (collections db)))"
  by (simp add: get_collections_user_def Collection_find_sort_def Listed_def)

lemma example_sorted:
  "sortCreatedAtDesc insertionOrder (collections exampleStore) =
     [pickup ''c2'' ''u2'' 3000, pickup ''c3'' ''u1'' 3000, pickup ''c1'' ''u1'' 2000]"
  by (simp add: sortCreatedAtDesc_def exampleStore_def pickup_def insertionOrder_def)

text \<open>
  Claim C5, as stated, fails: the two routes send two separate queries, each sorted on
  \<^verbatim>\<open>createdAt\<close> alone, and the store may order two requests of one user with the
  same timestamp one way in the list of all requests and the other way in the list by
  user.
\<close>

theorem get_collections_user_filters_counterexample:
  "get_collections insertionOrder None tiedStore =
     Listed [pickup ''a'' ''u1'' 3000, pickup ''b'' ''u1'' 3000] \<and>
   get_collections_user bFirst None tiedStore ''u1'' =
     Listed [pickup ''b'' ''u1'' 3000, pickup ''a'' ''u1'' 3000] \<and>
   userId (pickup ''a'' ''u1'' 3000) = ''u1'' \<and> userId (pickup ''b'' ''u1'' 3000) = ''u1'' \<and>
   Listed [pickup ''b'' ''u1'' 3000, pickup ''a'' ''u1'' 3000] \<noteq>
     Listed [pickup ''a'' ''u1'' 3000, pickup ''b'' ''u1'' 3000]"
  by (simp add: get_collections_ok get_collections_user_ok sortCreatedAtDesc_def tiedStore_def
      pickup_def insertionOrder_def bFirst_def Listed_def respond_def collectionJson_def)

text \<open>
  Claim C5, amended. The list by user answers with exactly the stored documents whose
  \<^verbatim>\<open>userId\<close> is the route parameter, each as often as it is stored, in
  non-increasing order of creation time. When no two of that user's documents have the
  same creation time, this is the list of all requests restricted to that user, in the
  same relative order, however the store orders equal timestamps in either query.
\<close>

theorem get_collections_user_filters:
  "get_collections_user tie' None db uid =
     Listed (sortCreatedAtDesc tie' (filter (\<lambda>c. userId c = uid) (collections db))) \<and>
   mset (sortCreatedAtDesc tie' (filter (\<lambda>c. userId c = uid) (collections db))) =
     filter_mset (\<lambda>c. userId c = uid) (mset (collections db)) \<and>
   sorted_wrt (\<lambda>a b. createdAt a \<ge> createdAt b)
     (sortCreatedAtDesc tie' (filter (\<lambda>c. userId c = uid) (collections db))) \<and>
   get_collections tie None db = Listed (sortCreatedAtDesc tie (collections db)) \<and>
   (distinct (map createdAt (filter (\<lambda>c. userId c = uid) (collections db))) \<longrightarrow>
      get_collections_user tie' None db uid =
        Listed (filter (\<lambda>c. userId c = uid) (sortCreatedAtDesc tie (collections db))))"
  by (simp add: get_collections_ok get_collections_user_ok sortCreatedAtDesc_filter [of _ _ tie' tie]
      sortCreatedAtDesc_mset sortCreatedAtDesc_sorted)

lemma spaced_sorted:
  "sortCreatedAtDesc insertionOrder (collections spacedStore) =
     [pickup ''c3'' ''u1'' 4000, pickup ''c2'' ''u2'' 3000, pickup ''c1'' ''u1'' 2000]"
  by (simp add: sortCreatedAtDesc_def spacedStore_def pickup_def insertionOrder_def)

theorem get_collections_user_filters_witness:
  "distinct (map createdAt (filter (\<lambda>c. userId c = ''u1'') (collections spacedStore))) \<and>
   get_collections insertionOrder None spacedStore =
     Listed [pickup ''c3'' ''u1'' 4000, pickup ''c2'' ''u2'' 3000, pickup ''c1'' ''u1'' 2000] \<and>
   get_collections_user bFirst None spacedStore ''u1'' =
     Listed [pickup ''c3'' ''u1'' 4000, pickup ''c1'' ''u1'' 2000]"
proof -
  have d: "distinct (map createdAt (filter (\<lambda>c. userId c = ''u1'') (collections spacedStore)))"
    by (simp add: spacedStore_def pickup_def)
  note inst = get_collections_user_filters [of bFirst spacedStore "''u1''" insertionOrder]
  from inst d have "get_collections_user bFirst None spacedStore ''u1'' =
      Listed (filter (\<lambda>c. userId c = ''u1'') (sortCreatedAtDesc insertionOrder (collections spacedStore)))"
    by blast
  then have u: "get_collections_user bFirst None spacedStore ''u1'' =
      Listed [pickup ''c3'' ''u1'' 4000, pickup ''c1'' ''u1'' 2000]"
    by (simp add: spaced_sorted pickup_def)
  from inst have "get_collections insertionOrder None spacedStore =
      Listed (sortCreatedAtDesc insertionOrder (collections spacedStore))"
    by blast
  then have a: "get_collections insertionOrder None spacedStore =
     Listed [pickup ''c3'' ''u1'' 4000, pickup ''c2'' ''u2'' 3000, pickup ''c1'' ''u1'' 2000]"
    by (simp add: spaced_sorted)
  from d a u show ?thesis by blast
qed

text \<open>
  Claim C6. The list of all requests answers with every stored document, each as often
  as it is stored, in non-increasing order of creation time, for every content of the
  store and however the store orders equal timestamps.
\<close>

theorem get_collections_newest_first:
  "get_collections tie None db = Listed (sortCreatedAtDesc tie (collections db)) \<and>
   mset (sortCreatedAtDesc tie (collections db)) = mset (collections db) \<and>
   sorted_wrt (\<lambda>a b. createdAt a \<ge> createdAt b) (sortCreatedAtDesc tie (collections db))"
  by (simp add: get_collections_ok sortCreatedAtDesc_mset sortCreatedAtDesc_sorted)

theorem get_collections_newest_first_witness:
  "get_collections insertionOrder None exampleStore =
     Listed [pickup ''c2'' ''u2'' 3000, pickup ''c3'' ''u1'' 3000, pickup ''c1'' ''u1'' 2000] \<and>
   map createdAt (sortCreatedAtDesc insertionOrder (collections exampleStore)) = [3000, 3000, 2000]"
  using get_collections_newest_first [of insertionOrder exampleStore]
  by (simp add: example_sorted pickup_def)

end
